theory Spec2Isabelle
  imports Complex_Main
begin

section \<open>Values of the host language\<close>

text \<open>
  The program is Python. Its unbounded integers are \<open>int\<close>; its strings are \<open>string\<close>
  (the names used by the program are ASCII); its floats are idealised as \<open>real\<close>, so the
  arithmetic on trait weights and on clock readings is exact. What the program reads from
  its environment is passed to each operation as an argument: \<open>now\<close> is the value returned
  by a call of \<open>time.time()\<close>, a \<open>real\<close> named \<open>r\<close> or \<open>chance\<close> is the value returned by a
  call of \<open>random.random()\<close> (a float in the interval from 0 to 1, 1 excluded), and an
  \<open>int\<close> named \<open>x\<close> or \<open>..._roll\<close> is the entropy behind one call of \<open>random.randint\<close>.
  What an operation prints is returned beside the new state, one string per line.
\<close>

definition py_int :: "real \<Rightarrow> int" where
  \<comment> \<open>\<open>int(x)\<close> on a float: truncation toward zero\<close>
  "py_int x = (if 0 \<le> x then \<lfloor>x\<rfloor> else \<lceil>x\<rceil>)"

definition randint :: "int \<Rightarrow> int \<Rightarrow> int \<Rightarrow> int" where
  \<comment> \<open>\<open>random.randint(a, b)\<close>: some integer \<open>N\<close> with \<open>a \<le> N \<le> b\<close>, chosen by \<open>x\<close>\<close>
  "randint a b x = a + x mod (b - a + 1)"

definition lower_char :: "char \<Rightarrow> char" where
  "lower_char c =
     (let n = (of_char c :: nat) in if 65 \<le> n \<and> n \<le> 90 then char_of (n + 32) else c)"

definition lower :: "string \<Rightarrow> string" where
  \<comment> \<open>\<open>str.lower()\<close> on ASCII text\<close>
  "lower s = map lower_char s"

fun str_nat :: "nat \<Rightarrow> string" where
  "str_nat n =
     (if n < 10 then [char_of (48 + n)] else str_nat (n div 10) @ [char_of (48 + n mod 10)])"

declare str_nat.simps [simp del]

definition str_int :: "int \<Rightarrow> string" where
  \<comment> \<open>\<open>str(n)\<close>, as an f-string formats an integer\<close>
  "str_int n = (if n < 0 then ''-'' @ str_nat (nat (- n)) else str_nat (nat n))"

fun join :: "string \<Rightarrow> string list \<Rightarrow> string" where
  "join sep [] = []"
| "join sep [x] = x"
| "join sep (x # y # ys) = x @ sep @ join sep (y # ys)"

datatype error = ValueError

definition list_remove :: "'a \<Rightarrow> 'a list \<Rightarrow> error + 'a list" where
  \<comment> \<open>\<open>list.remove(x)\<close>: drops the first element equal to \<open>x\<close>, raises when there is none\<close>
  "list_remove x xs = (if x \<in> set xs then Inr (remove1 x xs) else Inl ValueError)"


section \<open>Needs\<close>

record Needs =
  hunger :: int
  energy :: int
  happiness :: int

definition Needs_init :: "int \<Rightarrow> int \<Rightarrow> int \<Rightarrow> Needs" where
  "Needs_init initial_hunger initial_energy initial_happiness =
     \<lparr>hunger = max 0 (min 10 initial_hunger),
      energy = max 0 (min 10 initial_energy),
      happiness = max 0 (min 10 initial_happiness)\<rparr>"

definition hunger_setter :: "int \<Rightarrow> Needs \<Rightarrow> Needs" where
  "hunger_setter v self = self\<lparr>hunger := max 0 (min 10 v)\<rparr>"

definition energy_setter :: "int \<Rightarrow> Needs \<Rightarrow> Needs" where
  "energy_setter v self = self\<lparr>energy := max 0 (min 10 v)\<rparr>"

definition happiness_setter :: "int \<Rightarrow> Needs \<Rightarrow> Needs" where
  "happiness_setter v self = self\<lparr>happiness := max 0 (min 10 v)\<rparr>"

definition Needs_str :: "Needs \<Rightarrow> string" where
  "Needs_str self =
     ''Hunger: '' @ str_int (hunger self) @ ''/10, Energy: '' @ str_int (energy self)
       @ ''/10, Happiness: '' @ str_int (happiness self) @ ''/10''"


section \<open>Personality\<close>

record Personality =
  pname :: string
  traits :: "string \<rightharpoonup> real"

definition Personality_init :: "string \<Rightarrow> (string \<rightharpoonup> real) \<Rightarrow> Personality" where
  "Personality_init nm trs =
     \<lparr>pname = nm, traits = (\<lambda>trait. map_option (\<lambda>v. max 0 (min 1 v)) (trs trait))\<rparr>"

definition get_trait_influence :: "Personality \<Rightarrow> string \<Rightarrow> real" where
  "get_trait_influence self trait = (case traits self trait of None \<Rightarrow> 0.5 | Some v \<Rightarrow> v)"


section \<open>Pet\<close>

text \<open>
  A mood modifier is a callable that receives the pet. The class hands it the pet and
  nothing else, so what it does is the caller's code, not the program's; the model takes
  the modifiers that act through the property setters of \<open>Needs\<close>, each write computing
  its value from the needs it finds.
\<close>

datatype needs_write =
    WriteHunger "Needs \<Rightarrow> int"
  | WriteEnergy "Needs \<Rightarrow> int"
  | WriteHappiness "Needs \<Rightarrow> int"

type_synonym mood_modifier = "needs_write list"

record Pet =
  name :: string
  species :: string
  needs :: Needs
  tricks :: "string list"
  personality :: Personality
  alive_flag :: bool
  last_interaction :: real
  mood_modifiers :: "mood_modifier list"

definition Pet_init ::
  "string \<Rightarrow> string \<Rightarrow> int \<Rightarrow> int \<Rightarrow> int \<Rightarrow> (string \<rightharpoonup> real) option \<Rightarrow> real \<Rightarrow> Pet" where
  "Pet_init nm sp initial_hunger initial_energy initial_happiness personality_traits now =
     \<lparr>name = nm,
      species = sp,
      needs = Needs_init initial_hunger initial_energy initial_happiness,
      tricks = [],
      personality = Personality_init (nm @ [CHR 0x27] @ ''s Personality'')
         (case personality_traits of None \<Rightarrow> Map.empty | Some t \<Rightarrow> t),
      alive_flag = True,
      last_interaction = now,
      mood_modifiers = []\<rparr>"

definition eat :: "real \<Rightarrow> 'a Pet_scheme \<Rightarrow> 'a Pet_scheme \<times> string list" where
  "eat now self =
     (if \<not> alive_flag self then
        (self, [name self @ '' is no longer with us and cannot eat.''])
      else
        let hunger_reduction = 3 - 1 * get_trait_influence (personality self) ''pickiness'';
            self = self\<lparr>needs :=
              hunger_setter (max 0 (hunger (needs self) - py_int hunger_reduction)) (needs self)\<rparr>;
            happiness_increase = 1 + 0.5 * get_trait_influence (personality self) ''joyfulness'';
            self = self\<lparr>needs :=
              happiness_setter (min 10 (happiness (needs self) + py_int happiness_increase))
                (needs self)\<rparr>;
            self = self\<lparr>last_interaction := now\<rparr>
        in (self, [name self @ '' is eating...'']))"

definition sleep :: "real \<Rightarrow> 'a Pet_scheme \<Rightarrow> 'a Pet_scheme \<times> string list" where
  "sleep now self =
     (if \<not> alive_flag self then
        (self, [name self @ '' is no longer with us and cannot sleep.''])
      else
        let energy_increase = 5 + 2 * get_trait_influence (personality self) ''laziness'';
            self = self\<lparr>needs :=
              energy_setter (min 10 (energy (needs self) + py_int energy_increase)) (needs self)\<rparr>;
            self = self\<lparr>last_interaction := now\<rparr>
        in (self, [name self @ '' is sleeping...'']))"

definition play :: "real \<Rightarrow> 'a Pet_scheme \<Rightarrow> 'a Pet_scheme \<times> string list" where
  "play now self =
     (if \<not> alive_flag self then
        (self, [name self @ '' is no longer with us and cannot play.''])
      else
        let energy_decrease = 2 + 1 * (1 - get_trait_influence (personality self) ''playfulness'');
            self = self\<lparr>needs :=
              energy_setter (max 0 (energy (needs self) - py_int energy_decrease)) (needs self)\<rparr>;
            happiness_increase = 2 + 0.8 * get_trait_influence (personality self) ''playfulness'';
            self = self\<lparr>needs :=
              happiness_setter (min 10 (happiness (needs self) + py_int happiness_increase))
                (needs self)\<rparr>;
            hunger_increase = 1 + 0.3 * (1 - get_trait_influence (personality self) ''fussiness'');
            self = self\<lparr>needs :=
              hunger_setter (min 10 (hunger (needs self) + py_int hunger_increase)) (needs self)\<rparr>;
            self = self\<lparr>last_interaction := now\<rparr>
        in (self, [name self @ '' is playing!'']))"

definition get_status :: "'a Pet_scheme \<Rightarrow> 'a Pet_scheme \<times> string list" where
  "get_status self =
     (if \<not> alive_flag self then (self, [name self @ '' has passed away.''])
      else
        (self,
         [''--- '' @ name self @ '' ('' @ species self @ '') ---'',
          Needs_str (needs self),
          (if tricks self \<noteq> [] then ''Tricks learned: '' @ join '', '' (tricks self)
           else name self @ '' hasn'' @ [CHR 0x27] @ ''t learned any tricks yet.'')]))"

definition train :: "string \<Rightarrow> real \<Rightarrow> real \<Rightarrow> 'a Pet_scheme \<Rightarrow> 'a Pet_scheme \<times> string list" where
  "train trick r now self =
     (if \<not> alive_flag self then
        (self, [name self @ '' is no longer with us and cannot learn any new tricks.''])
      else if lower trick \<notin> set (map lower (tricks self)) then
        let success_chance = 0.6 + 0.3 * get_trait_influence (personality self) ''trainability'';
            (self, out) =
              (if r < success_chance then
                 let self = self\<lparr>tricks := tricks self @ [trick]\<rparr>;
                     self = self\<lparr>needs :=
                       happiness_setter (min 10 (happiness (needs self) + 2)) (needs self)\<rparr>
                 in (self,
                     [name self @ '' learned the trick '' @ [CHR 0x27] @ trick @ [CHR 0x27] @ ''!''])
               else
                 (self,
                  [name self @ '' struggled to learn '' @ [CHR 0x27] @ trick @ [CHR 0x27]
                     @ ''. Try again later!'']))
        in (self\<lparr>last_interaction := now\<rparr>, out)
      else
        (self,
         [name self @ '' already knows the trick '' @ [CHR 0x27] @ trick @ [CHR 0x27] @ ''.'']))"

definition show_tricks :: "'a Pet_scheme \<Rightarrow> 'a Pet_scheme \<times> string list" where
  "show_tricks self =
     (if \<not> alive_flag self then
        (self, [name self @ '' is no longer with us and cannot show any tricks.''])
      else if tricks self \<noteq> [] then
        (self, [name self @ '' knows the following tricks: '' @ join '', '' (tricks self)])
      else
        (self, [name self @ '' hasn'' @ [CHR 0x27] @ ''t learned any tricks yet.'']))"

definition add_mood_modifier :: "mood_modifier \<Rightarrow> 'a Pet_scheme \<Rightarrow> 'a Pet_scheme" where
  "add_mood_modifier modifier self = self\<lparr>mood_modifiers := mood_modifiers self @ [modifier]\<rparr>"

fun apply_write :: "needs_write \<Rightarrow> Needs \<Rightarrow> Needs" where
  "apply_write (WriteHunger f) n = hunger_setter (f n) n"
| "apply_write (WriteEnergy f) n = energy_setter (f n) n"
| "apply_write (WriteHappiness f) n = happiness_setter (f n) n"

definition call_modifier :: "mood_modifier \<Rightarrow> 'a Pet_scheme \<Rightarrow> 'a Pet_scheme" where
  "call_modifier modifier self = self\<lparr>needs := fold apply_write modifier (needs self)\<rparr>"

definition update_mood :: "'a Pet_scheme \<Rightarrow> 'a Pet_scheme" where
  "update_mood self = fold call_modifier (mood_modifiers self) self"

definition time_passes :: "int \<Rightarrow> real \<Rightarrow> real \<Rightarrow> 'a Pet_scheme \<Rightarrow> 'a Pet_scheme \<times> string list" where
  \<comment> \<open>\<open>now1\<close> and \<open>now2\<close> are the two clock readings of the method, in order\<close>
  "time_passes seconds now1 now2 self =
     (if \<not> alive_flag self then (self, [])
      else
        let time_elapsed = now1 - last_interaction self in
        if time_elapsed \<ge> of_int seconds then
          let hunger_increase = py_int (time_elapsed /
                (3600 / (3 + 2 * get_trait_influence (personality self) ''metabolism'')));
              energy_decrease = py_int (time_elapsed /
                (7200 / (5 + 3 * get_trait_influence (personality self) ''activity'')));
              happiness_decrease = py_int (time_elapsed /
                (10800 / (2 + 1 * get_trait_influence (personality self) ''sociability'')));
              self = self\<lparr>needs :=
                hunger_setter (min 10 (hunger (needs self) + hunger_increase)) (needs self)\<rparr>;
              self = self\<lparr>needs :=
                energy_setter (max 0 (energy (needs self) - energy_decrease)) (needs self)\<rparr>;
              self = self\<lparr>needs :=
                happiness_setter (max 0 (happiness (needs self) - happiness_decrease))
                  (needs self)\<rparr>;
              self = self\<lparr>last_interaction := now2\<rparr>
          in if hunger (needs self) \<ge> 10 \<or> energy (needs self) \<le> 0
                \<or> happiness (needs self) \<le> 0 then
               (self\<lparr>alive_flag := False\<rparr>, [name self @ '' has passed away due to neglect.''])
             else (self, [])
        else (self, []))"

definition is_alive :: "'a Pet_scheme \<Rightarrow> bool" where
  "is_alive self = alive_flag self"


section \<open>AdvancedPet\<close>

record AdvancedPet = Pet +
  health :: int
  diseases :: "string list"

definition health_setter :: "int \<Rightarrow> AdvancedPet \<Rightarrow> AdvancedPet \<times> string list" where
  "health_setter v self =
     (let self = self\<lparr>health := max 0 (min 100 v)\<rparr> in
      if health self \<le> 0 \<and> alive_flag self then
        (self\<lparr>alive_flag := False\<rparr>, [name self @ '' has succumbed to illness.''])
      else (self, []))"

definition AdvancedPet_init ::
  "string \<Rightarrow> string \<Rightarrow> int \<Rightarrow> int \<Rightarrow> int \<Rightarrow> int \<Rightarrow> (string \<rightharpoonup> real) option \<Rightarrow> real
     \<Rightarrow> AdvancedPet \<times> string list" where
  \<comment> \<open>The base constructor runs first, then the health setter, then the disease list is
      bound. The setter stores the health without reading an earlier one, so the value the
      field holds before the first write is never seen.\<close>
  "AdvancedPet_init nm sp initial_hunger initial_energy initial_happiness initial_health
       personality_traits now =
     (let base = Pet_init nm sp initial_hunger initial_energy initial_happiness
                   personality_traits now;
          self = \<lparr>name = name base, species = species base, needs = needs base,
                  tricks = tricks base, personality = personality base,
                  alive_flag = alive_flag base, last_interaction = last_interaction base,
                  mood_modifiers = mood_modifiers base, health = 0, diseases = []\<rparr>
      in case health_setter (max 0 (min 100 initial_health)) self of
           (self, out) \<Rightarrow> (self\<lparr>diseases := []\<rparr>, out))"

definition AdvancedPet_get_status :: "AdvancedPet \<Rightarrow> AdvancedPet \<times> string list" where
  "AdvancedPet_get_status self =
     (case get_status self of (self, out) \<Rightarrow>
        if alive_flag self then
          (self, out @ [''Health: '' @ str_int (health self) @ ''/100'']
                  @ (if diseases self \<noteq> [] then [''Diseases: '' @ join '', '' (diseases self)]
                     else []))
        else (self, out))"

definition AdvancedPet_eat :: "real \<Rightarrow> real \<Rightarrow> AdvancedPet \<Rightarrow> AdvancedPet \<times> string list" where
  "AdvancedPet_eat now r self =
     (case eat now self of (self, out) \<Rightarrow>
        if r < 0.3 then
          let health_increase = 2 + 1 * get_trait_influence (personality self) ''constitution''
          in case health_setter (min 100 (health self + py_int health_increase)) self of
               (self, out') \<Rightarrow> (self, out @ out')
        else (self, out))"

definition AdvancedPet_play :: "real \<Rightarrow> real \<Rightarrow> AdvancedPet \<Rightarrow> AdvancedPet \<times> string list" where
  "AdvancedPet_play now r self =
     (case play now self of (self, out) \<Rightarrow>
        if energy (needs self) < 3 \<and> r < 0.4 then
          let health_decrease = 3 - 1 * get_trait_influence (personality self) ''resilience''
          in case health_setter (max 0 (health self - py_int health_decrease)) self of
               (self, out') \<Rightarrow> (self, out @ out')
        else (self, out))"

definition AdvancedPet_train ::
  "string \<Rightarrow> real \<Rightarrow> real \<Rightarrow> real \<Rightarrow> AdvancedPet \<Rightarrow> AdvancedPet \<times> string list" where
  \<comment> \<open>\<open>r\<close> is the draw of the base method, \<open>r2\<close> the draw of the override\<close>
  "AdvancedPet_train trick r now r2 self =
     (case train trick r now self of (self, out) \<Rightarrow>
        if lower trick \<in> set (map lower (tricks self)) \<and> r2 < 0.2 then
          case health_setter (min 100 (health self + 1)) self of
            (self, out') \<Rightarrow> (self, out @ out')
        else (self, out))"

definition contract_disease ::
  "string \<Rightarrow> int \<Rightarrow> int \<Rightarrow> int \<Rightarrow> int \<Rightarrow> AdvancedPet \<Rightarrow> AdvancedPet \<times> string list" where
  "contract_disease disease x1 x2 x3 x4 self =
     (if lower disease \<notin> set (map lower (diseases self)) then
        let self = self\<lparr>diseases := diseases self @ [disease]\<rparr>;
            out = [name self @ '' has contracted '' @ [CHR 0x27] @ disease @ [CHR 0x27] @ ''.''];
            self = self\<lparr>needs :=
              hunger_setter (min 10 (hunger (needs self) + randint 1 3 x1)) (needs self)\<rparr>;
            self = self\<lparr>needs :=
              energy_setter (max 0 (energy (needs self) - randint 1 3 x2)) (needs self)\<rparr>;
            self = self\<lparr>needs :=
              happiness_setter (max 0 (happiness (needs self) - randint 2 4 x3)) (needs self)\<rparr>
        in case health_setter (max 0 (health self - randint 5 15 x4)) self of
             (self, out') \<Rightarrow> (self, out @ out')
      else (self, []))"

definition treat_disease ::
  "string \<Rightarrow> real \<Rightarrow> int \<Rightarrow> AdvancedPet \<Rightarrow> error + AdvancedPet \<times> string list" where
  "treat_disease disease r x self =
     (if lower disease \<in> set (map lower (diseases self)) then
        let treatment_success_chance =
              0.7 * get_trait_influence (personality self) ''cooperativeness''
        in if r < treatment_success_chance then
             case list_remove disease (diseases self) of
               Inl e \<Rightarrow> Inl e
             | Inr ds \<Rightarrow>
                 let self = self\<lparr>diseases := ds\<rparr>;
                     out = [name self @ '' has been cured of '' @ [CHR 0x27] @ disease
                              @ [CHR 0x27] @ ''.'']
                 in case health_setter (min 100 (health self + randint 5 10 x)) self of
                      (self, out') \<Rightarrow> Inr (self, out @ out')
           else
             Inr (self, [''Treatment for '' @ [CHR 0x27] @ disease @ [CHR 0x27]
                           @ '' was unsuccessful.''])
      else
        Inr (self, [name self @ '' doesn'' @ [CHR 0x27] @ ''t have '' @ [CHR 0x27] @ disease
                      @ [CHR 0x27] @ ''.'']))"

text \<open>
  The draws of one turn of the loop in \<open>AdvancedPet.time_passes\<close>: the chance first and,
  when the disease worsens, four integers in the order the method asks for them.
\<close>

record worsening =
  chance :: real
  health_roll :: int
  hunger_roll :: int
  energy_roll :: int
  happiness_roll :: int

definition worsen_turn :: "worsening \<Rightarrow> string \<Rightarrow> AdvancedPet \<Rightarrow> AdvancedPet \<times> string list" where
  \<comment> \<open>the body of the loop, for a disease that worsens\<close>
  "worsen_turn d disease self =
     (let out = [disease @ '' is worsening for '' @ name self @ ''.''] in
      case health_setter (max 0 (health self - randint 3 7 (health_roll d))) self of
        (self, out') \<Rightarrow>
          let self = self\<lparr>needs :=
                hunger_setter (min 10 (hunger (needs self) + randint 0 2 (hunger_roll d)))
                  (needs self)\<rparr>;
              self = self\<lparr>needs :=
                energy_setter (max 0 (energy (needs self) - randint 0 2 (energy_roll d)))
                  (needs self)\<rparr>;
              self = self\<lparr>needs :=
                happiness_setter (max 0 (happiness (needs self) - randint 1 3 (happiness_roll d)))
                  (needs self)\<rparr>
          in (self, out @ out'))"

fun worsen ::
  "(nat \<Rightarrow> worsening) \<Rightarrow> nat \<Rightarrow> string list \<Rightarrow> AdvancedPet \<Rightarrow> AdvancedPet \<times> string list" where
  \<comment> \<open>the loop over the snapshot of the diseases; \<open>draws i\<close> are the draws of turn \<open>i\<close>\<close>
  "worsen draws i [] self = (self, [])"
| "worsen draws i (disease # rest) self =
     (if chance (draws i) < 0.2 then
        case worsen_turn (draws i) disease self of
          (self', out) \<Rightarrow>
            (case worsen draws (Suc i) rest self' of (self'', out') \<Rightarrow> (self'', out @ out'))
      else worsen draws (Suc i) rest self)"

definition AdvancedPet_time_passes ::
  "int \<Rightarrow> real \<Rightarrow> real \<Rightarrow> (nat \<Rightarrow> worsening) \<Rightarrow> AdvancedPet \<Rightarrow> AdvancedPet \<times> string list" where
  "AdvancedPet_time_passes seconds now1 now2 draws self =
     (case time_passes seconds now1 now2 self of (self, out) \<Rightarrow>
        if alive_flag self then
          case worsen draws 0 (diseases self) self of (self, out') \<Rightarrow> (self, out @ out')
        else (self, out))"


section \<open>Callers\<close>

text \<open>
  A caller holds one pet and invokes its public operations one after the other, each call
  with the clock readings and the random draws it consumes. The property writes
  \<open>pet.needs.hunger = v\<close> (and so on) that the classes offer are calls as well.
\<close>

datatype pet_call =
    Eat real
  | Sleep real
  | Play real
  | GetStatus
  | Train string real real
  | ShowTricks
  | AddMoodModifier mood_modifier
  | UpdateMood
  | TimePasses int real real
  | IsAlive
  | SetHunger int
  | SetEnergy int
  | SetHappiness int

fun pet_step :: "pet_call \<Rightarrow> 'a Pet_scheme \<Rightarrow> 'a Pet_scheme \<times> string list" where
  "pet_step (Eat now) self = eat now self"
| "pet_step (Sleep now) self = sleep now self"
| "pet_step (Play now) self = play now self"
| "pet_step GetStatus self = get_status self"
| "pet_step (Train trick r now) self = train trick r now self"
| "pet_step ShowTricks self = show_tricks self"
| "pet_step (AddMoodModifier m) self = (add_mood_modifier m self, [])"
| "pet_step UpdateMood self = (update_mood self, [])"
| "pet_step (TimePasses seconds now1 now2) self = time_passes seconds now1 now2 self"
| "pet_step IsAlive self = (self, [])"
| "pet_step (SetHunger v) self = (self\<lparr>needs := hunger_setter v (needs self)\<rparr>, [])"
| "pet_step (SetEnergy v) self = (self\<lparr>needs := energy_setter v (needs self)\<rparr>, [])"
| "pet_step (SetHappiness v) self = (self\<lparr>needs := happiness_setter v (needs self)\<rparr>, [])"

fun run_pet :: "pet_call list \<Rightarrow> 'a Pet_scheme \<Rightarrow> 'a Pet_scheme \<times> string list" where
  "run_pet [] self = (self, [])"
| "run_pet (c # cs) self =
     (case pet_step c self of (self', out) \<Rightarrow>
        case run_pet cs self' of (self'', out') \<Rightarrow> (self'', out @ out'))"

datatype advanced_call =
    AdvEat real real
  | AdvSleep real
  | AdvPlay real real
  | AdvGetStatus
  | AdvTrain string real real real
  | AdvShowTricks
  | AdvAddMoodModifier mood_modifier
  | AdvUpdateMood
  | AdvTimePasses int real real "nat \<Rightarrow> worsening"
  | AdvIsAlive
  | AdvSetHunger int
  | AdvSetEnergy int
  | AdvSetHappiness int
  | SetHealth int
  | ContractDisease string int int int int
  | TreatDisease string real int

fun advanced_step :: "advanced_call \<Rightarrow> AdvancedPet \<Rightarrow> error + AdvancedPet \<times> string list" where
  "advanced_step (AdvEat now r) self = Inr (AdvancedPet_eat now r self)"
| "advanced_step (AdvSleep now) self = Inr (sleep now self)"
| "advanced_step (AdvPlay now r) self = Inr (AdvancedPet_play now r self)"
| "advanced_step AdvGetStatus self = Inr (AdvancedPet_get_status self)"
| "advanced_step (AdvTrain trick r now r2) self = Inr (AdvancedPet_train trick r now r2 self)"
| "advanced_step AdvShowTricks self = Inr (show_tricks self)"
| "advanced_step (AdvAddMoodModifier m) self = Inr (add_mood_modifier m self, [])"
| "advanced_step AdvUpdateMood self = Inr (update_mood self, [])"
| "advanced_step (AdvTimePasses seconds now1 now2 draws) self =
     Inr (AdvancedPet_time_passes seconds now1 now2 draws self)"
| "advanced_step AdvIsAlive self = Inr (self, [])"
| "advanced_step (AdvSetHunger v) self = Inr (self\<lparr>needs := hunger_setter v (needs self)\<rparr>, [])"
| "advanced_step (AdvSetEnergy v) self = Inr (self\<lparr>needs := energy_setter v (needs self)\<rparr>, [])"
| "advanced_step (AdvSetHappiness v) self =
     Inr (self\<lparr>needs := happiness_setter v (needs self)\<rparr>, [])"
| "advanced_step (SetHealth v) self = Inr (health_setter v self)"
| "advanced_step (ContractDisease disease x1 x2 x3 x4) self =
     Inr (contract_disease disease x1 x2 x3 x4 self)"
| "advanced_step (TreatDisease disease r x) self = treat_disease disease r x self"

fun run_advanced ::
  "advanced_call list \<Rightarrow> AdvancedPet \<Rightarrow> AdvancedPet \<times> string list \<times> error option" where
  \<comment> \<open>an exception ends the run and leaves the pet as it was when it was raised\<close>
  "run_advanced [] self = (self, [], None)"
| "run_advanced (c # cs) self =
     (case advanced_step c self of
        Inl e \<Rightarrow> (self, [], Some e)
      | Inr (self', out) \<Rightarrow>
          (case run_advanced cs self' of (self'', out', e) \<Rightarrow> (self'', out @ out', e)))"


section \<open>Ranges\<close>

definition needs_ok :: "Needs \<Rightarrow> bool" where
  "needs_ok n =
     (0 \<le> hunger n \<and> hunger n \<le> 10 \<and> 0 \<le> energy n \<and> energy n \<le> 10
      \<and> 0 \<le> happiness n \<and> happiness n \<le> 10)"

definition weights_ok :: "Personality \<Rightarrow> bool" where
  "weights_ok p = (\<forall>v \<in> ran (traits p). 0 \<le> v \<and> v \<le> 1)"

definition pet_ok :: "'a Pet_scheme \<Rightarrow> bool" where
  "pet_ok self = (needs_ok (needs self) \<and> weights_ok (personality self))"

definition advanced_ok :: "AdvancedPet \<Rightarrow> bool" where
  "advanced_ok self = (pet_ok self \<and> 0 \<le> health self \<and> health self \<le> 100)"


section \<open>Facts about the host values\<close>

lemma py_int_nonneg: "0 \<le> x \<Longrightarrow> py_int x = \<lfloor>x\<rfloor>"
  by (simp add: py_int_def)

lemma py_int_toward_zero:
  "\<bar>of_int (py_int x)\<bar> \<le> \<bar>x\<bar> \<and> \<bar>x\<bar> < \<bar>of_int (py_int x)\<bar> + 1 \<and> (0 \<le> x \<longrightarrow> 0 \<le> py_int x)
   \<and> (x \<le> 0 \<longrightarrow> py_int x \<le> 0)"
  unfolding py_int_def by (cases "0 \<le> x") (simp_all, linarith+)

lemma randint_range: "a \<le> b \<Longrightarrow> a \<le> randint a b x \<and> randint a b x \<le> b"
  using pos_mod_bound [of "b - a + 1" x] pos_mod_sign [of "b - a + 1" x]
  by (simp add: randint_def)

lemma randint_onto: "a \<le> k \<Longrightarrow> k \<le> b \<Longrightarrow> randint a b (k - a) = k"
  by (simp add: randint_def)



lemma lower_FLU: "lower ''FLU'' = ''flu''" by code_simp

lemma lower_flu: "lower ''flu'' = ''flu''" by code_simp




lemma Personality_init_ok: "weights_ok (Personality_init nm trs)"
  by (auto simp: weights_ok_def Personality_init_def ran_def)

lemma Needs_init_ok: "needs_ok (Needs_init a b c)"
  by (simp add: needs_ok_def Needs_init_def)

lemma Pet_init_ok: "pet_ok (Pet_init nm sp ih ie ihp pt now)"
  by (simp add: pet_ok_def Pet_init_def Personality_init_ok Needs_init_ok)


section \<open>Construction\<close>

text \<open>
  C10. An \<open>AdvancedPet\<close> constructed with an initial health of zero or less is dead when the
  constructor returns: the health setter, run by the constructor, stores 0, clears the
  liveness flag and prints the illness message, before any action is invoked.
\<close>

theorem AdvancedPet_init_dead:
  assumes "initial_health \<le> 0"
  shows "\<not> is_alive (fst (AdvancedPet_init nm sp ih ie ihp initial_health pt now))
       \<and> health (fst (AdvancedPet_init nm sp ih ie ihp initial_health pt now)) = 0
       \<and> snd (AdvancedPet_init nm sp ih ie ihp initial_health pt now)
           = [nm @ '' has succumbed to illness.'']"
  using assms
  by (simp add: AdvancedPet_init_def health_setter_def Pet_init_def is_alive_def Let_def)

theorem AdvancedPet_init_dead_witness:
  "(-3::int) \<le> 0 \<and> \<not> is_alive (fst (AdvancedPet_init ''Rex'' ''Dog'' 5 7 5 (-3) None 0))
       \<and> health (fst (AdvancedPet_init ''Rex'' ''Dog'' 5 7 5 (-3) None 0)) = 0
       \<and> snd (AdvancedPet_init ''Rex'' ''Dog'' 5 7 5 (-3) None 0)
           = [''Rex has succumbed to illness.'']"
  using AdvancedPet_init_dead [of "-3" "''Rex''" "''Dog''" 5 7 5 None 0] by simp


section \<open>Observers\<close>

text \<open>
  C9. \<open>show_tricks\<close> and \<open>get_status\<close>, on a \<open>Pet\<close> or an \<open>AdvancedPet\<close>, alive or dead, called
  any number of times, leave the whole state as it was: they only print.
\<close>

theorem observers_pure:
  "((\<lambda>s. fst (get_status s)) ^^ n) self = self
   \<and> ((\<lambda>s. fst (show_tricks s)) ^^ n) self = self
   \<and> ((\<lambda>s. fst (AdvancedPet_get_status s)) ^^ n) adv = adv
   \<and> ((\<lambda>s. fst (show_tricks s)) ^^ n) adv = adv"
proof -
  have g: "\<And>s :: 'a Pet_scheme. fst (get_status s) = s" by (simp add: get_status_def)
  have s: "\<And>s :: 'b Pet_scheme. fst (show_tricks s) = s" by (simp add: show_tricks_def)
  have a: "\<And>s. fst (AdvancedPet_get_status s) = s"
    by (simp add: AdvancedPet_get_status_def get_status_def)
  show ?thesis by (induction n) (simp_all add: g s a)
qed


section \<open>Eating\<close>




section \<open>Training\<close>






text \<open>
  The override in \<open>AdvancedPet\<close> runs the base method and then, when the trick is known,
  may add 1 to the health: on a trick the pet already knows that is its only effect.
\<close>

lemma AdvancedPet_train_known:
  assumes "alive_flag self" and "lower t \<in> set (map lower (tricks self))"
      and "0 \<le> health self"
  shows "fst (AdvancedPet_train t r now r2 self)
           = (if r2 < 0.2 then self\<lparr>health := min 100 (health self + 1)\<rparr> else self)"
  using assms
  by (simp add: AdvancedPet_train_def train_def health_setter_def Let_def)


section \<open>Time\<close>





section \<open>Dead pets\<close>

text \<open>A dead \<open>Pet\<close> refuses every action of the base class.\<close>

lemma dead_Pet_refuses:
  assumes "\<not> is_alive self"
  shows "fst (eat now self) = self" and "fst (sleep now self) = self"
    and "fst (play now self) = self" and "fst (train t r now self) = self"
    and "fst (show_tricks self) = self" and "fst (get_status self) = self"
    and "fst (time_passes seconds now1 now2 self) = self"
  using assms
  by (simp_all add: is_alive_def eat_def sleep_def play_def train_def show_tricks_def
        get_status_def time_passes_def)

text \<open>
  C1 asks the same of \<open>AdvancedPet\<close>. Its overrides of \<open>eat\<close>, \<open>play\<close> and \<open>train\<close> run their
  own health write after the base method has refused, and \<open>contract_disease\<close> and
  \<open>treat_disease\<close> never look at the liveness flag: a pet that is dead from its construction
  gains 2 health by eating, and contracts a disease that moves its needs.
\<close>

theorem dead_AdvancedPet_still_changes:
  "\<not> is_alive (fst (AdvancedPet_init ''Rex'' ''Dog'' 5 7 5 0 None 0))
   \<and> health (fst (AdvancedPet_init ''Rex'' ''Dog'' 5 7 5 0 None 0)) = 0
   \<and> health (fst (AdvancedPet_eat 1 0.1 (fst (AdvancedPet_init ''Rex'' ''Dog'' 5 7 5 0 None 0)))) = 2
   \<and> diseases (fst (AdvancedPet_init ''Rex'' ''Dog'' 5 7 5 0 None 0)) = []
   \<and> needs (fst (AdvancedPet_init ''Rex'' ''Dog'' 5 7 5 0 None 0))
       = \<lparr>hunger = 5, energy = 7, happiness = 5\<rparr>
   \<and> diseases (fst (contract_disease ''flu'' 0 0 0 0
        (fst (AdvancedPet_init ''Rex'' ''Dog'' 5 7 5 0 None 0)))) = [''flu'']
   \<and> needs (fst (contract_disease ''flu'' 0 0 0 0
        (fst (AdvancedPet_init ''Rex'' ''Dog'' 5 7 5 0 None 0))))
       = \<lparr>hunger = 6, energy = 6, happiness = 3\<rparr>"
  by (simp add: AdvancedPet_init_def Pet_init_def health_setter_def Let_def is_alive_def
        AdvancedPet_eat_def eat_def get_trait_influence_def Personality_init_def py_int_def
        Needs_init_def contract_disease_def randint_def hunger_setter_def energy_setter_def
        happiness_setter_def)


section \<open>Treating a disease\<close>

lemma treat_disease_stored_name:
  assumes "disease \<in> set (diseases self)"
  shows "r < 0.7 * get_trait_influence (personality self) ''cooperativeness'' \<Longrightarrow>
           \<exists>out. treat_disease disease r x self
             = Inr (fst (health_setter (min 100 (health self + randint 5 10 x))
                      (self\<lparr>diseases := remove1 disease (diseases self)\<rparr>)), out)"
    and "\<not> r < 0.7 * get_trait_influence (personality self) ''cooperativeness'' \<Longrightarrow>
           fst ` {p. treat_disease disease r x self = Inr p} = {self}"
  using assms
  by (auto simp add: treat_disease_def list_remove_def Let_def split: prod.splits)

lemma treat_disease_absent:
  "lower disease \<notin> set (map lower (diseases self)) \<Longrightarrow>
     \<exists>out. treat_disease disease r x self = Inr (self, out)"
  by (simp add: treat_disease_def)

text \<open>
  C2 asks that \<open>treat_disease\<close> never raises, whatever the casing of the name. The
  membership test ignores case and the removal does not: on a live pet that has
  \<open>flu\<close>, treating \<open>FLU\<close> with a winning draw raises \<open>ValueError\<close>.
\<close>

theorem treat_disease_other_casing_raises:
  "is_alive (fst (contract_disease ''flu'' 0 0 0 0
        (fst (AdvancedPet_init ''Rex'' ''Dog'' 5 7 5 100 None 0))))
   \<and> diseases (fst (contract_disease ''flu'' 0 0 0 0
        (fst (AdvancedPet_init ''Rex'' ''Dog'' 5 7 5 100 None 0)))) = [''flu'']
   \<and> lower ''FLU'' \<in> set (map lower (diseases (fst (contract_disease ''flu'' 0 0 0 0
        (fst (AdvancedPet_init ''Rex'' ''Dog'' 5 7 5 100 None 0))))))
   \<and> treat_disease ''FLU'' 0.1 0 (fst (contract_disease ''flu'' 0 0 0 0
        (fst (AdvancedPet_init ''Rex'' ''Dog'' 5 7 5 100 None 0)))) = Inl ValueError"
  by (simp add: treat_disease_def contract_disease_def AdvancedPet_init_def Pet_init_def
        health_setter_def Let_def get_trait_influence_def Personality_init_def Needs_init_def
        list_remove_def lower_FLU lower_flu randint_def hunger_setter_def energy_setter_def
        happiness_setter_def is_alive_def)


section \<open>Lifecycle and ranges\<close>

subsection \<open>What the mood modifiers touch\<close>

lemma apply_write_ok: "needs_ok n \<Longrightarrow> needs_ok (apply_write w n)"
  by (cases w) (simp_all add: needs_ok_def hunger_setter_def energy_setter_def happiness_setter_def)

lemma fold_apply_write_ok: "needs_ok n \<Longrightarrow> needs_ok (fold apply_write ws n)"
  by (induction ws arbitrary: n) (simp_all add: apply_write_ok)

lemma call_modifier_fields:
  "alive_flag (call_modifier m self) = alive_flag self"
  "personality (call_modifier m self) = personality self"
  by (simp_all add: call_modifier_def)

lemma call_modifier_ok: "needs_ok (needs self) \<Longrightarrow> needs_ok (needs (call_modifier m self))"
  by (simp add: call_modifier_def fold_apply_write_ok)

lemma fold_call_modifier:
  "alive_flag (fold call_modifier ms self) = alive_flag self
   \<and> personality (fold call_modifier ms self) = personality self
   \<and> (needs_ok (needs self) \<longrightarrow> needs_ok (needs (fold call_modifier ms self)))"
  by (induction ms arbitrary: self) (simp_all add: call_modifier_fields call_modifier_ok)

lemma update_mood_fields:
  "alive_flag (update_mood self) = alive_flag self"
  "personality (update_mood self) = personality self"
  "needs_ok (needs self) \<Longrightarrow> needs_ok (needs (update_mood self))"
  using fold_call_modifier [of "mood_modifiers self" self] by (simp_all add: update_mood_def)

lemma fold_call_modifier_advanced:
  "health (fold call_modifier ms (self :: AdvancedPet)) = health self
   \<and> diseases (fold call_modifier ms self) = diseases self"
  by (induction ms arbitrary: self) (simp_all add: call_modifier_def)

lemma update_mood_advanced:
  "health (update_mood (self :: AdvancedPet)) = health self"
  "diseases (update_mood (self :: AdvancedPet)) = diseases self"
  using fold_call_modifier_advanced [of "mood_modifiers self" self]
  by (simp_all add: update_mood_def)

subsection \<open>Dead stays dead\<close>

lemma pet_step_dead: "\<not> alive_flag self \<Longrightarrow> \<not> alive_flag (fst (pet_step c self))"
  by (cases c)
     (simp_all add: eat_def sleep_def play_def get_status_def train_def show_tricks_def
        add_mood_modifier_def update_mood_fields time_passes_def)

lemma health_setter_dead: "\<not> alive_flag self \<Longrightarrow> \<not> alive_flag (fst (health_setter v self))"
  by (simp add: health_setter_def Let_def)

lemma health_setter_fields:
  "needs (fst (health_setter v self)) = needs self"
  "personality (fst (health_setter v self)) = personality self"
  "name (fst (health_setter v self)) = name self"
  "health (fst (health_setter v self)) = max 0 (min 100 v)"
  by (simp_all add: health_setter_def Let_def)


lemma worsen_turn_dead:
  "\<not> alive_flag self \<Longrightarrow> \<not> alive_flag (fst (worsen_turn d disease self))"
  by (simp add: worsen_turn_def health_setter_def Let_def)

lemma worsen_dead:
  "\<not> alive_flag self \<Longrightarrow> \<not> alive_flag (fst (worsen draws i ds self))"
  by (induction ds arbitrary: self i) (simp_all add: split_beta worsen_turn_dead)

lemma advanced_step_dead:
  assumes "\<not> alive_flag self" and "advanced_step c self = Inr (self', out)"
  shows "\<not> alive_flag self'"
proof (cases c)
  case (AdvEat now r)
  then show ?thesis using assms
    by (auto simp: AdvancedPet_eat_def eat_def health_setter_def Let_def split: if_splits)
next
  case (AdvPlay now r)
  then show ?thesis using assms
    by (auto simp: AdvancedPet_play_def play_def health_setter_def Let_def split: if_splits)
next
  case (AdvTrain t r now r2)
  then show ?thesis using assms
    by (auto simp: AdvancedPet_train_def train_def health_setter_def Let_def split: if_splits)
next
  case (AdvTimePasses seconds now1 now2 draws)
  then show ?thesis using assms
    by (auto simp: AdvancedPet_time_passes_def time_passes_def)
next
  case (ContractDisease d x1 x2 x3 x4)
  then show ?thesis using assms
    by (auto simp: contract_disease_def health_setter_def Let_def split: if_splits)
next
  case (TreatDisease d r x)
  then show ?thesis using assms
    by (auto simp: treat_disease_def health_setter_def Let_def list_remove_def split: if_splits)
next
  case AdvUpdateMood
  then show ?thesis using assms by (auto simp: update_mood_fields)
qed (use assms in \<open>auto simp: sleep_def AdvancedPet_get_status_def get_status_def show_tricks_def
        add_mood_modifier_def health_setter_def Let_def split: if_splits\<close>)

lemma run_pet_dead: "\<not> alive_flag self \<Longrightarrow> \<not> alive_flag (fst (run_pet cs self))"
  by (induction cs arbitrary: self) (simp_all add: split_beta pet_step_dead)

lemma run_advanced_dead: "\<not> alive_flag adv \<Longrightarrow> \<not> alive_flag (fst (run_advanced cs adv))"
proof (induction cs arbitrary: adv)
  case Nil
  then show ?case by simp
next
  case (Cons c cs)
  show ?case
  proof (cases "advanced_step c adv")
    case (Inl e)
    then show ?thesis using Cons.prems by simp
  next
    case (Inr p)
    then have "\<not> alive_flag (fst p)"
      using advanced_step_dead [of adv c "fst p" "snd p"] Cons.prems by simp
    from Cons.IH [OF this] show ?thesis using Inr by (simp add: split_beta)
  qed
qed

text \<open>
  C6. Once \<open>is_alive\<close> is false it stays false: whatever public operations a caller runs on
  a dead \<open>Pet\<close> or a dead \<open>AdvancedPet\<close>, in any number and order, the pet is dead
  afterwards. No operation sets the liveness flag back.
\<close>

theorem death_is_permanent:
  "(\<not> is_alive self \<longrightarrow> \<not> is_alive (fst (run_pet cs self)))
   \<and> (\<not> is_alive adv \<longrightarrow> \<not> is_alive (fst (run_advanced acs adv)))"
  by (simp add: is_alive_def run_pet_dead run_advanced_dead)


theorem death_is_permanent_witness:
  "\<not> is_alive (fst (time_passes 0 1 1 (Pet_init ''Buddy'' ''Dog'' 10 7 5 None 0)))
   \<and> \<not> is_alive (fst (run_pet [Eat 2, Sleep 3, SetHunger 0, UpdateMood, TimePasses 0 9 9]
         (fst (time_passes 0 1 1 (Pet_init ''Buddy'' ''Dog'' 10 7 5 None 0)))))
   \<and> \<not> is_alive (fst (AdvancedPet_init ''Rex'' ''Dog'' 5 7 5 0 None 0))
   \<and> \<not> is_alive (fst (run_advanced
         [AdvEat 1 0.1, SetHealth 100, ContractDisease ''flu'' 0 0 0 0, AdvSleep 2]
         (fst (AdvancedPet_init ''Rex'' ''Dog'' 5 7 5 0 None 0))))"
proof -
  have d1: "\<not> is_alive (fst (time_passes 0 1 1 (Pet_init ''Buddy'' ''Dog'' 10 7 5 None 0)))"
    by (simp add: time_passes_def Pet_init_def Needs_init_def is_alive_def Let_def
          hunger_setter_def energy_setter_def happiness_setter_def Personality_init_def
          get_trait_influence_def py_int_def)
  have d2: "\<not> is_alive (fst (AdvancedPet_init ''Rex'' ''Dog'' 5 7 5 0 None 0))"
    by (simp add: AdvancedPet_init_def Pet_init_def health_setter_def is_alive_def Let_def)
  show ?thesis
    using death_is_permanent
            [of "fst (time_passes 0 1 1 (Pet_init ''Buddy'' ''Dog'' 10 7 5 None 0))"
                "[Eat 2, Sleep 3, SetHunger 0, UpdateMood, TimePasses 0 9 9]"
                "fst (AdvancedPet_init ''Rex'' ''Dog'' 5 7 5 0 None 0)"
                "[AdvEat 1 0.1, SetHealth 100, ContractDisease ''flu'' 0 0 0 0, AdvSleep 2]"]
          d1 d2
    by blast
qed

subsection \<open>Ranges are kept\<close>

lemma setters_ok:
  "needs_ok n \<Longrightarrow> needs_ok (hunger_setter v n)"
  "needs_ok n \<Longrightarrow> needs_ok (energy_setter v n)"
  "needs_ok n \<Longrightarrow> needs_ok (happiness_setter v n)"
  by (simp_all add: needs_ok_def hunger_setter_def energy_setter_def happiness_setter_def)

lemma pet_step_ok: "pet_ok self \<Longrightarrow> pet_ok (fst (pet_step c self))"
  by (cases c)
     (simp_all add: pet_ok_def eat_def sleep_def play_def get_status_def train_def
        show_tricks_def add_mood_modifier_def update_mood_fields time_passes_def Let_def
        setters_ok split_beta)

lemma run_pet_ok: "pet_ok self \<Longrightarrow> pet_ok (fst (run_pet cs self))"
  by (induction cs arbitrary: self) (simp_all add: split_beta pet_step_ok)

lemma health_setter_ok: "pet_ok self \<Longrightarrow> advanced_ok (fst (health_setter v self))"
  by (simp add: advanced_ok_def pet_ok_def health_setter_def Let_def)

lemma advanced_ok_pet: "advanced_ok self \<Longrightarrow> pet_ok self"
  by (simp add: advanced_ok_def)

lemma base_step_advanced_ok:
  "advanced_ok self \<Longrightarrow> advanced_ok (fst (pet_step c self))"
proof -
  assume a: "advanced_ok self"
  have "health (fst (pet_step c self)) = health self"
    by (cases c)
       (simp_all add: eat_def sleep_def play_def get_status_def train_def show_tricks_def
          add_mood_modifier_def update_mood_advanced time_passes_def Let_def split_beta)
  then show ?thesis
    using a pet_step_ok [of self c] by (simp add: advanced_ok_def)
qed

lemma worsen_turn_ok: "advanced_ok self \<Longrightarrow> advanced_ok (fst (worsen_turn d disease self))"
  by (simp add: worsen_turn_def advanced_ok_def pet_ok_def health_setter_def Let_def setters_ok)

lemma worsen_ok: "advanced_ok self \<Longrightarrow> advanced_ok (fst (worsen draws i ds self))"
  by (induction ds arbitrary: self i) (simp_all add: split_beta worsen_turn_ok)

lemma advanced_step_ok:
  assumes "advanced_ok self" and "advanced_step c self = Inr (self', out)"
  shows "advanced_ok self'"
proof (cases c)
  case (AdvEat now r)
  have "advanced_ok (fst (eat now self))"
    using base_step_advanced_ok [OF assms(1), of "Eat now"] by simp
  then have "advanced_ok (fst (AdvancedPet_eat now r self))"
    using health_setter_ok [OF advanced_ok_pet]
    by (simp add: AdvancedPet_eat_def split_beta Let_def)
  then show ?thesis using assms(2) AdvEat by auto
next
  case (AdvSleep now)
  then show ?thesis
    using assms(2) base_step_advanced_ok [OF assms(1), of "Sleep now"] by auto
next
  case (AdvPlay now r)
  have "advanced_ok (fst (play now self))"
    using base_step_advanced_ok [OF assms(1), of "Play now"] by simp
  then have "advanced_ok (fst (AdvancedPet_play now r self))"
    using health_setter_ok [OF advanced_ok_pet]
    by (simp add: AdvancedPet_play_def split_beta Let_def)
  then show ?thesis using assms(2) AdvPlay by auto
next
  case AdvGetStatus
  then show ?thesis
    using assms by (auto simp: AdvancedPet_get_status_def get_status_def split: if_splits)
next
  case (AdvTrain t r now r2)
  have "advanced_ok (fst (train t r now self))"
    using base_step_advanced_ok [OF assms(1), of "Train t r now"] by simp
  then have "advanced_ok (fst (AdvancedPet_train t r now r2 self))"
    using health_setter_ok [OF advanced_ok_pet]
    by (simp add: AdvancedPet_train_def split_beta)
  then show ?thesis using assms(2) AdvTrain by auto
next
  case AdvShowTricks
  then show ?thesis
    using assms(2) base_step_advanced_ok [OF assms(1), of ShowTricks] by auto
next
  case (AdvAddMoodModifier m)
  then show ?thesis
    using assms(2) base_step_advanced_ok [OF assms(1), of "AddMoodModifier m"] by auto
next
  case AdvUpdateMood
  then show ?thesis
    using assms(2) base_step_advanced_ok [OF assms(1), of UpdateMood] by auto
next
  case (AdvTimePasses seconds now1 now2 draws)
  have "advanced_ok (fst (time_passes seconds now1 now2 self))"
    using base_step_advanced_ok [OF assms(1), of "TimePasses seconds now1 now2"] by simp
  then have "advanced_ok (fst (AdvancedPet_time_passes seconds now1 now2 draws self))"
    by (simp add: AdvancedPet_time_passes_def split_beta worsen_ok)
  then show ?thesis using assms(2) AdvTimePasses by auto
next
  case AdvIsAlive
  then show ?thesis using assms by auto
next
  case (AdvSetHunger v)
  then show ?thesis
    using assms(2) base_step_advanced_ok [OF assms(1), of "SetHunger v"] by auto
next
  case (AdvSetEnergy v)
  then show ?thesis
    using assms(2) base_step_advanced_ok [OF assms(1), of "SetEnergy v"] by auto
next
  case (AdvSetHappiness v)
  then show ?thesis
    using assms(2) base_step_advanced_ok [OF assms(1), of "SetHappiness v"] by auto
next
  case (SetHealth v)
  then show ?thesis
    using assms(2) health_setter_ok [OF advanced_ok_pet [OF assms(1)], of v] by auto
next
  case (ContractDisease d x1 x2 x3 x4)
  have "advanced_ok (fst (contract_disease d x1 x2 x3 x4 self))"
    using assms(1)
    by (simp add: contract_disease_def split_beta Let_def advanced_ok_def pet_ok_def
          health_setter_def setters_ok)
  then show ?thesis using assms(2) ContractDisease by auto
next
  case (TreatDisease d r x)
  then show ?thesis
    using assms
    by (auto simp: treat_disease_def Let_def advanced_ok_def pet_ok_def health_setter_def
          split: if_splits sum.splits)
qed

lemma run_advanced_ok: "advanced_ok adv \<Longrightarrow> advanced_ok (fst (run_advanced cs adv))"
proof (induction cs arbitrary: adv)
  case Nil
  then show ?case by simp
next
  case (Cons c cs)
  show ?case
  proof (cases "advanced_step c adv")
    case (Inl e)
    then show ?thesis using Cons.prems by simp
  next
    case (Inr p)
    then have "advanced_ok (fst p)"
      using advanced_step_ok [of adv c "fst p" "snd p"] Cons.prems by simp
    from Cons.IH [OF this] show ?thesis using Inr by (simp add: split_beta)
  qed
qed

lemma AdvancedPet_init_ok:
  "advanced_ok (fst (AdvancedPet_init nm sp ih ie ihp ihl pt now))"
proof -
  have "pet_ok (Pet_init nm sp ih ie ihp pt now)" by (rule Pet_init_ok)
  then show ?thesis
    by (simp add: AdvancedPet_init_def Let_def split_beta advanced_ok_def pet_ok_def
          health_setter_def)
qed

text \<open>
  C3. After construction with any initial values, and after any sequence of operations,
  hunger, energy and happiness are between 0 and 10, every stored weight of the
  personality is between 0 and 1, and the health of an \<open>AdvancedPet\<close> is between 0 and 100.
\<close>

theorem ranges_always:
  "pet_ok (fst (run_pet cs (Pet_init nm sp ih ie ihp pt now)))
   \<and> advanced_ok (fst (run_advanced acs (fst (AdvancedPet_init nm sp ih ie ihp ihl pt now))))"
  by (simp add: run_pet_ok Pet_init_ok run_advanced_ok AdvancedPet_init_ok)

theorem ranges_always_witness:
  "pet_ok (fst (run_pet [Eat 1, SetHunger 42, TimePasses 0 9 9]
      (Pet_init ''Buddy'' ''Dog'' 50 (- 7) 5 (Some [''pickiness'' \<mapsto> 7]) 0)))
   \<and> advanced_ok (fst (run_advanced [ContractDisease ''flu'' 0 0 0 0, SetHealth 250]
      (fst (AdvancedPet_init ''Rex'' ''Dog'' 50 (- 7) 5 250 (Some [''pickiness'' \<mapsto> 7]) 0))))
   \<and> traits (personality (Pet_init ''Buddy'' ''Dog'' 50 (- 7) 5 (Some [''pickiness'' \<mapsto> 7]) 0))
        ''pickiness'' = Some 1
   \<and> needs (Pet_init ''Buddy'' ''Dog'' 50 (- 7) 5 (Some [''pickiness'' \<mapsto> 7]) 0)
        = \<lparr>hunger = 10, energy = 0, happiness = 5\<rparr>
   \<and> health (fst (AdvancedPet_init ''Rex'' ''Dog'' 50 (- 7) 5 250 (Some [''pickiness'' \<mapsto> 7]) 0))
        = 100"
  using ranges_always
          [of "[Eat 1, SetHunger 42, TimePasses 0 9 9]" "''Buddy''" "''Dog''" 50 "- 7" 5
              "Some [''pickiness'' \<mapsto> 7]" 0]
        ranges_always
          [of _ "''Rex''" "''Dog''" 50 "- 7" 5 "Some [''pickiness'' \<mapsto> 7]" 0
              "[ContractDisease ''flu'' 0 0 0 0, SetHealth 250]" 250]
  by (simp add: Pet_init_def Personality_init_def Needs_init_def AdvancedPet_init_def
        health_setter_def Let_def)


section \<open>Death by illness\<close>

lemma health_setter_kills:
  "alive_flag self \<Longrightarrow> v \<le> 0 \<Longrightarrow>
     health_setter v self
       = (self\<lparr>health := 0, alive_flag := False\<rparr>, [name self @ '' has succumbed to illness.''])"
  by (simp add: health_setter_def Let_def max_def min_def)

lemma health_setter_cases:
  "alive_flag self \<Longrightarrow>
     (alive_flag (fst (health_setter v self)) \<and> 0 < health (fst (health_setter v self))
        \<and> snd (health_setter v self) = [])
     \<or> (\<not> alive_flag (fst (health_setter v self)) \<and> health (fst (health_setter v self)) = 0
        \<and> snd (health_setter v self) = [name self @ '' has succumbed to illness.''])"
  by (simp add: health_setter_def Let_def) linarith

lemma worsen_turn_name: "name (fst (worsen_turn d disease self)) = name self"
  by (simp add: worsen_turn_def Let_def split_beta health_setter_def)

lemma worsen_name: "name (fst (worsen draws i ds self)) = name self"
  by (induction ds arbitrary: self i) (simp_all add: split_beta worsen_turn_name)

lemma worsen_turn_illness:
  assumes "alive_flag self"
  shows "(alive_flag (fst (worsen_turn d disease self)) \<and> 0 < health (fst (worsen_turn d disease self)))
       \<or> (\<not> alive_flag (fst (worsen_turn d disease self))
           \<and> name self @ '' has succumbed to illness.'' \<in> set (snd (worsen_turn d disease self)))"
  using health_setter_cases [OF assms, of "max 0 (health self - randint 3 7 (health_roll d))"]
  by (auto simp add: worsen_turn_def Let_def split_beta)

lemma worsen_illness:
  assumes "alive_flag self" and "0 < health self"
  shows "(alive_flag (fst (worsen draws i ds self)) \<and> 0 < health (fst (worsen draws i ds self)))
       \<or> (\<not> alive_flag (fst (worsen draws i ds self))
           \<and> name self @ '' has succumbed to illness.'' \<in> set (snd (worsen draws i ds self)))"
  using assms
proof (induction ds arbitrary: self i)
  case Nil
  then show ?case by simp
next
  case (Cons d ds)
  show ?case
  proof (cases "chance (draws i) < 0.2")
    case False
    then show ?thesis using Cons.IH [OF Cons.prems] by simp
  next
    case True
    let ?t = "worsen_turn (draws i) d self"
    from worsen_turn_illness [OF Cons.prems(1), of "draws i" d]
    consider (live) "alive_flag (fst ?t)" "0 < health (fst ?t)"
      | (dead) "\<not> alive_flag (fst ?t)" "name self @ '' has succumbed to illness.'' \<in> set (snd ?t)"
      by blast
    then show ?thesis
    proof cases
      case live
      from Cons.IH [OF live, of "Suc i"] show ?thesis
        using True by (auto simp add: split_beta worsen_turn_name)
    next
      case dead
      from worsen_dead [OF dead(1), of draws "Suc i" ds] dead(2) show ?thesis
        using True by (simp add: split_beta)
    qed
  qed
qed

text \<open>
  C4. On a live \<open>AdvancedPet\<close> a write of a health of zero or less kills at once: the
  setter stores 0, clears the liveness flag and prints the illness line, which is not the
  neglect line. So when \<open>contract_disease\<close>, the overexertion of \<open>play\<close> or a worsening
  disease in \<open>time_passes\<close> brings a positive health to zero, the pet is dead when the
  call returns and the illness line has been printed, whatever the needs are.
\<close>

theorem health_write_kills:
  assumes "is_alive self"
  shows "(v \<le> 0 \<longrightarrow>
            health_setter v self
              = (self\<lparr>health := 0, alive_flag := False\<rparr>,
                 [name self @ '' has succumbed to illness.'']))
       \<and> (0 < health self \<and> health (fst (contract_disease d x1 x2 x3 x4 self)) \<le> 0 \<longrightarrow>
            \<not> is_alive (fst (contract_disease d x1 x2 x3 x4 self))
            \<and> name self @ '' has succumbed to illness.''
                \<in> set (snd (contract_disease d x1 x2 x3 x4 self)))
       \<and> (0 < health self \<and> health (fst (AdvancedPet_play now r self)) \<le> 0 \<longrightarrow>
            \<not> is_alive (fst (AdvancedPet_play now r self))
            \<and> name self @ '' has succumbed to illness.''
                \<in> set (snd (AdvancedPet_play now r self)))
       \<and> (0 < health self
            \<and> health (fst (AdvancedPet_time_passes seconds now1 now2 draws self)) \<le> 0 \<longrightarrow>
            \<not> is_alive (fst (AdvancedPet_time_passes seconds now1 now2 draws self))
            \<and> name self @ '' has succumbed to illness.''
                \<in> set (snd (AdvancedPet_time_passes seconds now1 now2 draws self)))
       \<and> name self @ '' has succumbed to illness.''
            \<noteq> name self @ '' has passed away due to neglect.''"
proof -
  from assms have al: "alive_flag self" by (simp add: is_alive_def)
  have set: "v \<le> 0 \<longrightarrow>
            health_setter v self
              = (self\<lparr>health := 0, alive_flag := False\<rparr>,
                 [name self @ '' has succumbed to illness.''])"
    using health_setter_kills [OF al] by blast
  have cd: "0 < health self \<and> health (fst (contract_disease d x1 x2 x3 x4 self)) \<le> 0 \<longrightarrow>
            \<not> is_alive (fst (contract_disease d x1 x2 x3 x4 self))
            \<and> name self @ '' has succumbed to illness.''
                \<in> set (snd (contract_disease d x1 x2 x3 x4 self))"
    using al
    by (auto simp add: contract_disease_def Let_def split_beta health_setter_def is_alive_def)
  have pl: "0 < health self \<and> health (fst (AdvancedPet_play now r self)) \<le> 0 \<longrightarrow>
            \<not> is_alive (fst (AdvancedPet_play now r self))
            \<and> name self @ '' has succumbed to illness.''
                \<in> set (snd (AdvancedPet_play now r self))"
    using al
    by (auto simp add: AdvancedPet_play_def play_def Let_def split_beta health_setter_def
          is_alive_def)
  have tp: "0 < health self
            \<and> health (fst (AdvancedPet_time_passes seconds now1 now2 draws self)) \<le> 0 \<longrightarrow>
            \<not> is_alive (fst (AdvancedPet_time_passes seconds now1 now2 draws self))
            \<and> name self @ '' has succumbed to illness.''
                \<in> set (snd (AdvancedPet_time_passes seconds now1 now2 draws self))"
  proof (intro impI, elim conjE)
    let ?b = "fst (time_passes seconds now1 now2 self)"
    assume h: "0 < health self"
       and z: "health (fst (AdvancedPet_time_passes seconds now1 now2 draws self)) \<le> 0"
    have hb: "health ?b = health self" and nb: "name ?b = name self"
      by (simp_all add: time_passes_def Let_def)
    show "\<not> is_alive (fst (AdvancedPet_time_passes seconds now1 now2 draws self))
            \<and> name self @ '' has succumbed to illness.''
                \<in> set (snd (AdvancedPet_time_passes seconds now1 now2 draws self))"
    proof (cases "alive_flag ?b")
      case False
      then show ?thesis
        using z h hb by (simp add: AdvancedPet_time_passes_def split_beta)
    next
      case True
      from worsen_illness [OF True, of draws 0 "diseases ?b"] h hb nb z True
      show ?thesis
        by (auto simp add: AdvancedPet_time_passes_def split_beta is_alive_def)
    qed
  qed
  show ?thesis using set cd pl tp by simp
qed

theorem health_write_kills_witness:
  "is_alive (fst (AdvancedPet_init ''Rex'' ''Dog'' 5 7 5 3 None 0))
   \<and> health (fst (AdvancedPet_init ''Rex'' ''Dog'' 5 7 5 3 None 0)) = 3
   \<and> \<not> is_alive (fst (health_setter (- 2) (fst (AdvancedPet_init ''Rex'' ''Dog'' 5 7 5 3 None 0))))
   \<and> health (fst (contract_disease ''flu'' 0 0 0 0
        (fst (AdvancedPet_init ''Rex'' ''Dog'' 5 7 5 3 None 0)))) = 0
   \<and> needs (fst (contract_disease ''flu'' 0 0 0 0
        (fst (AdvancedPet_init ''Rex'' ''Dog'' 5 7 5 3 None 0))))
       = \<lparr>hunger = 6, energy = 6, happiness = 3\<rparr>
   \<and> \<not> is_alive (fst (contract_disease ''flu'' 0 0 0 0
        (fst (AdvancedPet_init ''Rex'' ''Dog'' 5 7 5 3 None 0))))
   \<and> ''Rex has succumbed to illness.'' \<in> set (snd (contract_disease ''flu'' 0 0 0 0
        (fst (AdvancedPet_init ''Rex'' ''Dog'' 5 7 5 3 None 0))))
   \<and> is_alive (fst (AdvancedPet_init ''Rex'' ''Dog'' 5 3 5 2 None 0))
   \<and> health (fst (AdvancedPet_play 1 0.1 (fst (AdvancedPet_init ''Rex'' ''Dog'' 5 3 5 2 None 0)))) = 0
   \<and> needs (fst (AdvancedPet_play 1 0.1 (fst (AdvancedPet_init ''Rex'' ''Dog'' 5 3 5 2 None 0))))
       = \<lparr>hunger = 6, energy = 1, happiness = 7\<rparr>
   \<and> \<not> is_alive (fst (AdvancedPet_play 1 0.1 (fst (AdvancedPet_init ''Rex'' ''Dog'' 5 3 5 2 None 0))))
   \<and> ''Rex has succumbed to illness.''
       \<in> set (snd (AdvancedPet_play 1 0.1 (fst (AdvancedPet_init ''Rex'' ''Dog'' 5 3 5 2 None 0))))
   \<and> is_alive (fst (contract_disease ''flu'' 0 0 0 0
        (fst (AdvancedPet_init ''Rex'' ''Dog'' 5 7 5 9 None 0))))
   \<and> health (fst (contract_disease ''flu'' 0 0 0 0
        (fst (AdvancedPet_init ''Rex'' ''Dog'' 5 7 5 9 None 0)))) = 4
   \<and> health (fst (AdvancedPet_time_passes 3600 10 10
        (\<lambda>_. \<lparr>chance = 0.1, health_roll = 2, hunger_roll = 0, energy_roll = 0, happiness_roll = 0\<rparr>)
        (fst (contract_disease ''flu'' 0 0 0 0
          (fst (AdvancedPet_init ''Rex'' ''Dog'' 5 7 5 9 None 0)))))) = 0
   \<and> needs (fst (AdvancedPet_time_passes 3600 10 10
        (\<lambda>_. \<lparr>chance = 0.1, health_roll = 2, hunger_roll = 0, energy_roll = 0, happiness_roll = 0\<rparr>)
        (fst (contract_disease ''flu'' 0 0 0 0
          (fst (AdvancedPet_init ''Rex'' ''Dog'' 5 7 5 9 None 0))))))
       = \<lparr>hunger = 6, energy = 6, happiness = 2\<rparr>
   \<and> \<not> is_alive (fst (AdvancedPet_time_passes 3600 10 10
        (\<lambda>_. \<lparr>chance = 0.1, health_roll = 2, hunger_roll = 0, energy_roll = 0, happiness_roll = 0\<rparr>)
        (fst (contract_disease ''flu'' 0 0 0 0
          (fst (AdvancedPet_init ''Rex'' ''Dog'' 5 7 5 9 None 0))))))
   \<and> ''Rex has succumbed to illness.'' \<in> set (snd (AdvancedPet_time_passes 3600 10 10
        (\<lambda>_. \<lparr>chance = 0.1, health_roll = 2, hunger_roll = 0, energy_roll = 0, happiness_roll = 0\<rparr>)
        (fst (contract_disease ''flu'' 0 0 0 0
          (fst (AdvancedPet_init ''Rex'' ''Dog'' 5 7 5 9 None 0))))))"
proof -
  let ?a = "fst (AdvancedPet_init ''Rex'' ''Dog'' 5 7 5 3 None 0)"
  let ?b = "fst (AdvancedPet_init ''Rex'' ''Dog'' 5 3 5 2 None 0)"
  let ?c = "fst (contract_disease ''flu'' 0 0 0 0
              (fst (AdvancedPet_init ''Rex'' ''Dog'' 5 7 5 9 None 0)))"
  let ?d = "\<lambda>_::nat. \<lparr>chance = 0.1, health_roll = 2, hunger_roll = 0, energy_roll = 0,
                     happiness_roll = 0\<rparr>"
  note ev = AdvancedPet_init_def Pet_init_def Needs_init_def Personality_init_def
    health_setter_def is_alive_def Let_def contract_disease_def randint_def hunger_setter_def
    energy_setter_def happiness_setter_def get_trait_influence_def py_int_def split_beta
  have a: "is_alive ?a" "health ?a = 3" "name ?a = ''Rex''" by (simp_all add: ev)
  have a1: "health (fst (contract_disease ''flu'' 0 0 0 0 ?a)) = 0"
           "needs (fst (contract_disease ''flu'' 0 0 0 0 ?a))
              = \<lparr>hunger = 6, energy = 6, happiness = 3\<rparr>"
    by (simp_all add: ev)
  have b: "is_alive ?b" "health ?b = 2" "name ?b = ''Rex''" by (simp_all add: ev)
  have b1: "health (fst (AdvancedPet_play 1 0.1 ?b)) = 0"
           "needs (fst (AdvancedPet_play 1 0.1 ?b)) = \<lparr>hunger = 6, energy = 1, happiness = 7\<rparr>"
    by (simp_all add: ev AdvancedPet_play_def play_def)
  have c: "is_alive ?c" "health ?c = 4" "name ?c = ''Rex''" by (simp_all add: ev)
  have c0: "diseases ?c = [''flu'']" "last_interaction ?c = 0"
           "needs ?c = \<lparr>hunger = 6, energy = 6, happiness = 3\<rparr>" "alive_flag ?c"
    by (simp_all add: ev)
  have c1: "health (fst (AdvancedPet_time_passes 3600 10 10 ?d ?c)) = 0"
           "needs (fst (AdvancedPet_time_passes 3600 10 10 ?d ?c))
              = \<lparr>hunger = 6, energy = 6, happiness = 2\<rparr>"
    by (simp_all add: AdvancedPet_time_passes_def time_passes_def c0 worsen_turn_def
          split_beta Let_def health_setter_def c randint_def hunger_setter_def
          energy_setter_def happiness_setter_def)
  show ?thesis
    using health_write_kills [OF a(1), of "- 2" "''flu''" 0 0 0 0]
          health_write_kills [OF b(1), where now = 1 and r = "0.1"]
          health_write_kills [OF c(1), where seconds = 3600 and ?now1.0 = 10 and ?now2.0 = 10
             and draws = ?d]
          a a1 b b1 c c1
    by (simp add: is_alive_def)
qed

end
